theory Spec2Isabelle
  imports Complex_Main
begin

section \<open>Values delivered by the wire format\<close>

text \<open>
  Both the claims of a decoded token and the body of an API response reach the
  library as the result of a JSON parser: Python \<^verbatim>\<open>None\<close>, \<^verbatim>\<open>bool\<close>, \<^verbatim>\<open>int\<close>,
  \<^verbatim>\<open>float\<close>, \<^verbatim>\<open>str\<close>, \<^verbatim>\<open>list\<close> and \<^verbatim>\<open>dict\<close> values.  A \<^verbatim>\<open>dict\<close> is an association
  list read with \<open>map_of\<close> (a Python dict has one entry per key).  A finite float is
  the real number it denotes; NaN and the infinities are not represented.
\<close>

datatype json =
    JNull
  | JBool bool
  | JInt int
  | JFloat real
  | JStr string
  | JList "json list"
  | JObj "(string \<times> json) list"

type_synonym pydict = "(string \<times> json) list"

text \<open>Python truthiness, as tested by \<^verbatim>\<open>if not sub\<close>.\<close>

fun truthy :: "json \<Rightarrow> bool" where
  "truthy JNull = False"
| "truthy (JBool b) = b"
| "truthy (JInt n) = (n \<noteq> 0)"
| "truthy (JFloat x) = (x \<noteq> 0)"
| "truthy (JStr s) = (s \<noteq> [])"
| "truthy (JList xs) = (xs \<noteq> [])"
| "truthy (JObj kvs) = (kvs \<noteq> [])"

text \<open>\<^verbatim>\<open>d.get(k)\<close>: the value stored under \<open>k\<close>, \<^verbatim>\<open>None\<close> when the key is absent.\<close>

definition dict_get :: "pydict \<Rightarrow> string \<Rightarrow> json" where
  "dict_get d k = (case map_of d k of None \<Rightarrow> JNull | Some v \<Rightarrow> v)"

section \<open>Exceptions\<close>

text \<open>
  The two exception classes of \<^verbatim>\<open>exceptions.py\<close> that the modelled code raises
  (\<^verbatim>\<open>InvalidTokenError\<close> with its message, \<^verbatim>\<open>PRMAccessError\<close> with its \<^verbatim>\<open>prm\<close>
  attribute), and the built-in exceptions that escape from \<^verbatim>\<open>models.py\<close>.
  \<^verbatim>\<open>KeyError\<close> carries the missing key; the messages of the other built-in
  exceptions are not modelled.
\<close>

datatype error =
    InvalidTokenError string
  | PRMAccessError string
  | KeyError string
  | ValueError
  | TypeError
  | AttributeError
  | IndexError

definition bindE :: "error + 'a \<Rightarrow> ('a \<Rightarrow> error + 'b) \<Rightarrow> error + 'b" where
  "bindE m f = (case m of Inl e \<Rightarrow> Inl e | Inr x \<Rightarrow> f x)"

section \<open>Calendar values and the library functions the code calls\<close>

record date =
  year :: nat
  month :: nat
  day :: nat

text \<open>Python's \<^verbatim>\<open>datetime\<close> is a subclass of \<^verbatim>\<open>date\<close>; the UTC offset is in seconds.\<close>

record datetime = date +
  hour :: nat
  minute :: nat
  second :: nat
  microsecond :: nat
  utcoffset :: "int option"

text \<open>
  The code calls four functions that are not part of the repository:
  \<^verbatim>\<open>jwt.decode(token, options={"verify_signature": False})\<close> of PyJWT, and
  \<^verbatim>\<open>int\<close>, \<^verbatim>\<open>date.fromisoformat\<close>, \<^verbatim>\<open>datetime.fromisoformat\<close> of the Python
  standard library.  They are parameters of the model:
  \<^item> \<open>jwt_decode\<close> returns the claims dict, or \<open>Inl msg\<close> for \<^verbatim>\<open>jwt.DecodeError(msg)\<close>
    (with signature verification switched off PyJWT validates no claim, so a
    token either decodes to a JSON object or raises \<^verbatim>\<open>DecodeError\<close>);
  \<^item> the three parsers return \<open>None\<close> where Python raises \<^verbatim>\<open>ValueError\<close>.
\<close>

record pylib =
  jwt_decode :: "string \<Rightarrow> string + pydict"
  int_of_str :: "string \<Rightarrow> int option"
  date_fromisoformat :: "string \<Rightarrow> date option"
  datetime_fromisoformat :: "string \<Rightarrow> datetime option"

section \<open>Token scope: \<^verbatim>\<open>client.py\<close>\<close>

text \<open>
  \<^verbatim>\<open>_extract_prms(token)\<close>.  The result is the list that becomes \<^verbatim>\<open>self._prms\<close>;
  its elements are whatever the claim holds, since the code checks no element.
\<close>

definition extract_prms :: "pylib \<Rightarrow> string \<Rightarrow> error + json list" where
  "extract_prms L token =
     (case jwt_decode L token of
        Inl e \<Rightarrow> Inl (InvalidTokenError (''Cannot decode token: '' @ e))
      | Inr payload \<Rightarrow>
          (let sub = dict_get payload ''sub'' in
           if \<not> truthy sub then Inl (InvalidTokenError ''Token has no 'sub' claim'')
           else
             bindE
               (case sub of
                  JStr s \<Rightarrow> Inr [sub]
                | JList xs \<Rightarrow> Inr xs
                | _ \<Rightarrow> Inl (InvalidTokenError ''Token 'sub' claim is not a string or list''))
               (\<lambda>prms.
                  if prms = [] then Inl (InvalidTokenError ''Token contains no PRMs'')
                  else Inr prms)))"

text \<open>
  List objects live in a store, addressed by position, so that the identity of the
  list held in \<^verbatim>\<open>self._prms\<close> and of the list handed out by the \<^verbatim>\<open>prms\<close> property
  can be told apart.  \<open>new_list\<close> allocates a list object.
\<close>

type_synonym ref = nat
type_synonym store = "json list list"

definition new_list :: "json list \<Rightarrow> store \<Rightarrow> ref \<times> store" where
  "new_list xs st = (length st, st @ [xs])"

text \<open>
  The state of a \<^verbatim>\<open>LinkyClient\<close> that scope resolution sets: \<^verbatim>\<open>_token\<close>, \<^verbatim>\<open>_prms\<close>
  (a reference to a list object) and \<^verbatim>\<open>_prm\<close>.  The transport settings
  (\<^verbatim>\<open>_user_agent\<close>, \<^verbatim>\<open>_timeout\<close>, \<^verbatim>\<open>_client\<close>) play no part in it and are left out.
  \<^verbatim>\<open>AsyncLinkyClient.__init__\<close> has the same body.
\<close>

record LinkyClient =
  priv_token :: string
  priv_prms :: ref
  priv_prm :: json

text \<open>\<^verbatim>\<open>LinkyClient.__init__(token, prm=prm)\<close>; \<open>None\<close> is the default \<^verbatim>\<open>prm=None\<close>.\<close>

definition LinkyClient_init ::
  "pylib \<Rightarrow> string \<Rightarrow> string option \<Rightarrow> store \<Rightarrow> error + (LinkyClient \<times> store)" where
  "LinkyClient_init L token prm st =
     bindE (extract_prms L token)
       (\<lambda>prms.
          let (r, st') = new_list prms st in
          bindE
            (case prm of
               Some p \<Rightarrow> if JStr p \<notin> set prms then Inl (PRMAccessError p) else Inr (JStr p)
             | None \<Rightarrow> (case prms of [] \<Rightarrow> Inl IndexError | x # _ \<Rightarrow> Inr x))
            (\<lambda>active.
               Inr (\<lparr>priv_token = token, priv_prms = r, priv_prm = active\<rparr>, st')))"

text \<open>The properties \<^verbatim>\<open>prm\<close> and \<^verbatim>\<open>prms\<close>; the latter returns \<^verbatim>\<open>self._prms.copy()\<close>.\<close>

definition prm :: "LinkyClient \<Rightarrow> json" where
  "prm c = priv_prm c"

definition prms :: "LinkyClient \<Rightarrow> store \<Rightarrow> ref \<times> store" where
  "prms c st = new_list (st ! priv_prms c) st"

section \<open>Response model: \<^verbatim>\<open>models.py\<close>\<close>

datatype MeasurementKind = MeasurementKind_ENERGY | MeasurementKind_POWER

datatype Aggregate = Aggregate_SUM | Aggregate_AVERAGE | Aggregate_MAXIMUM

text \<open>
  Calling an \<^verbatim>\<open>Enum\<close> class looks its argument up among the members' values and
  raises \<^verbatim>\<open>ValueError\<close> for any other argument, whatever its type.
\<close>

definition MeasurementKind_of :: "json \<Rightarrow> error + MeasurementKind" where
  "MeasurementKind_of v =
     (if v = JStr ''energy'' then Inr MeasurementKind_ENERGY
      else if v = JStr ''power'' then Inr MeasurementKind_POWER
      else Inl ValueError)"

definition Aggregate_of :: "json \<Rightarrow> error + Aggregate" where
  "Aggregate_of v =
     (if v = JStr ''sum'' then Inr Aggregate_SUM
      else if v = JStr ''average'' then Inr Aggregate_AVERAGE
      else if v = JStr ''maximum'' then Inr Aggregate_MAXIMUM
      else Inl ValueError)"

text \<open>
  The dataclasses.  A field that the code fills with a value taken verbatim from
  the payload holds a \<open>json\<close> value (Python checks no annotation at run time);
  \<open>JNull\<close> is \<^verbatim>\<open>None\<close>.  \<^verbatim>\<open>IntervalReading.date\<close> is a \<^verbatim>\<open>date\<close> or a \<^verbatim>\<open>datetime\<close>.
\<close>

record ReadingType =
  unit_f :: json
  measurement_kind :: MeasurementKind
  aggregate :: Aggregate
  measuring_period :: json

datatype date_or_datetime = Date date | DateTime datetime

record IntervalReading =
  value_f :: int
  date_f :: date_or_datetime
  interval_length :: json
  measure_type :: json

record MeteringData =
  usage_point_id :: json
  start :: date
  end_f :: date
  quality :: json
  reading_type :: ReadingType
  interval_reading :: "IntervalReading list"

subsection \<open>Python operations on run-time values\<close>

text \<open>\<^verbatim>\<open>obj[key]\<close> with a string key: only a dict can be indexed by a string.\<close>

fun subscript :: "json \<Rightarrow> string \<Rightarrow> error + json" where
  "subscript (JObj kvs) k = (case map_of kvs k of None \<Rightarrow> Inl (KeyError k) | Some v \<Rightarrow> Inr v)"
| "subscript _ k = Inl TypeError"

text \<open>\<^verbatim>\<open>obj.get(key)\<close>: only a dict has the method.\<close>

fun py_get :: "json \<Rightarrow> string \<Rightarrow> error + json" where
  "py_get (JObj kvs) k = Inr (dict_get kvs k)"
| "py_get _ k = Inl AttributeError"

text \<open>
  \<^verbatim>\<open>c in obj\<close> for a one-character string \<open>c\<close>: a substring test on a string, a
  membership test on a list, a key test on a dict, \<^verbatim>\<open>TypeError\<close> otherwise.
\<close>

fun contains_chr :: "char \<Rightarrow> json \<Rightarrow> error + bool" where
  "contains_chr c (JStr s) = Inr (c \<in> set s)"
| "contains_chr c (JList xs) = Inr (JStr [c] \<in> set xs)"
| "contains_chr c (JObj kvs) = Inr ([c] \<in> set (map fst kvs))"
| "contains_chr c _ = Inl TypeError"

text \<open>\<^verbatim>\<open>s.replace(" ", "T")\<close> replaces every space.\<close>

definition replace_space :: "string \<Rightarrow> string" where
  "replace_space s = map (\<lambda>c. if c = CHR '' '' then CHR ''T'' else c) s"

text \<open>\<^verbatim>\<open>int(v)\<close>: parses a string, truncates a float towards zero.\<close>

fun py_int :: "pylib \<Rightarrow> json \<Rightarrow> error + int" where
  "py_int L (JStr s) = (case int_of_str L s of None \<Rightarrow> Inl ValueError | Some n \<Rightarrow> Inr n)"
| "py_int L (JInt n) = Inr n"
| "py_int L (JBool b) = Inr (if b then 1 else 0)"
| "py_int L (JFloat x) = Inr (if 0 \<le> x then \<lfloor>x\<rfloor> else \<lceil>x\<rceil>)"
| "py_int L _ = Inl TypeError"

text \<open>\<^verbatim>\<open>date.fromisoformat(v)\<close>: \<^verbatim>\<open>TypeError\<close> unless \<open>v\<close> is a string.\<close>

fun py_date_fromisoformat :: "pylib \<Rightarrow> json \<Rightarrow> error + date" where
  "py_date_fromisoformat L (JStr s) =
     (case date_fromisoformat L s of None \<Rightarrow> Inl ValueError | Some d \<Rightarrow> Inr d)"
| "py_date_fromisoformat L _ = Inl TypeError"

text \<open>\<^verbatim>\<open>datetime.fromisoformat(v.replace(" ", "T"))\<close>: only a string has \<^verbatim>\<open>replace\<close>.\<close>

fun py_datetime_of_replaced :: "pylib \<Rightarrow> json \<Rightarrow> error + datetime" where
  "py_datetime_of_replaced L (JStr s) =
     (case datetime_fromisoformat L (replace_space s) of
        None \<Rightarrow> Inl ValueError | Some t \<Rightarrow> Inr t)"
| "py_datetime_of_replaced L _ = Inl AttributeError"

text \<open>
  \<^verbatim>\<open>for r in obj\<close>: the elements of a list, the characters of a string, the keys of
  a dict; \<^verbatim>\<open>TypeError\<close> for a value that is not iterable.
\<close>

fun iterate :: "json \<Rightarrow> error + json list" where
  "iterate (JList xs) = Inr xs"
| "iterate (JStr s) = Inr (map (\<lambda>c. JStr [c]) s)"
| "iterate (JObj kvs) = Inr (map (\<lambda>kv. JStr (fst kv)) kvs)"
| "iterate _ = Inl TypeError"

subsection \<open>The two \<^verbatim>\<open>from_dict\<close> class methods\<close>

text \<open>\<^verbatim>\<open>IntervalReading.from_dict(data)\<close>, statement by statement.\<close>

definition IntervalReading_from_dict :: "pylib \<Rightarrow> json \<Rightarrow> error + IntervalReading" where
  "IntervalReading_from_dict L data =
     bindE (subscript data ''date'') (\<lambda>date_str.
     bindE (contains_chr CHR ''T'' date_str) (\<lambda>has_T.
     bindE (if has_T then Inr True else contains_chr CHR '' '' date_str) (\<lambda>has_sep.
     bindE (if has_sep
            then bindE (py_datetime_of_replaced L date_str) (\<lambda>t. Inr (DateTime t))
            else bindE (py_date_fromisoformat L date_str) (\<lambda>d. Inr (Date d))) (\<lambda>parsed_date.
     bindE (subscript data ''value'') (\<lambda>v.
     bindE (py_int L v) (\<lambda>n.
     bindE (py_get data ''interval_length'') (\<lambda>il.
     bindE (py_get data ''measure_type'') (\<lambda>mt.
     Inr \<lparr>value_f = n, date_f = parsed_date, interval_length = il, measure_type = mt\<rparr>))))))))"

text \<open>
  The generator expression \<^verbatim>\<open>IntervalReading.from_dict(r) for r in ...\<close> consumed
  by \<^verbatim>\<open>tuple\<close>: the entries are mapped in order and the first exception ends it.
\<close>

fun from_dict_each :: "pylib \<Rightarrow> json list \<Rightarrow> error + IntervalReading list" where
  "from_dict_each L [] = Inr []"
| "from_dict_each L (r # rs) =
     bindE (IntervalReading_from_dict L r) (\<lambda>x.
     bindE (from_dict_each L rs) (\<lambda>xs. Inr (x # xs)))"

text \<open>\<^verbatim>\<open>MeteringData.from_dict(data)\<close>, in the order Python evaluates it.\<close>

definition MeteringData_from_dict :: "pylib \<Rightarrow> pydict \<Rightarrow> error + MeteringData" where
  "MeteringData_from_dict L data =
     bindE (subscript (JObj data) ''reading_type'') (\<lambda>reading_type_data.
     bindE (subscript reading_type_data ''unit'') (\<lambda>u.
     bindE (subscript reading_type_data ''measurement_kind'') (\<lambda>mk.
     bindE (MeasurementKind_of mk) (\<lambda>kind.
     bindE (subscript reading_type_data ''aggregate'') (\<lambda>ag.
     bindE (Aggregate_of ag) (\<lambda>agg.
     bindE (py_get reading_type_data ''measuring_period'') (\<lambda>mp.
     bindE (iterate (case map_of data ''interval_reading'' of None \<Rightarrow> JList [] | Some v \<Rightarrow> v))
       (\<lambda>entries.
     bindE (from_dict_each L entries) (\<lambda>readings.
     bindE (subscript (JObj data) ''usage_point_id'') (\<lambda>upid.
     bindE (subscript (JObj data) ''start'') (\<lambda>s.
     bindE (py_date_fromisoformat L s) (\<lambda>start_date.
     bindE (subscript (JObj data) ''end'') (\<lambda>e.
     bindE (py_date_fromisoformat L e) (\<lambda>end_date.
     bindE (subscript (JObj data) ''quality'') (\<lambda>q.
     Inr \<lparr>usage_point_id = upid, start = start_date, end_f = end_date, quality = q,
          reading_type = \<lparr>unit_f = u, measurement_kind = kind, aggregate = agg,
                          measuring_period = mp\<rparr>,
          interval_reading = readings\<rparr>)))))))))))))))"



section \<open>Callers of the \<^verbatim>\<open>prms\<close> property\<close>

text \<open>
  What code outside the client can do with the lists it obtains from the \<^verbatim>\<open>prms\<close>
  property: read the property again, or mutate one of the lists it was handed
  (\<^verbatim>\<open>append\<close>, \<^verbatim>\<open>clear\<close>, item assignment, \<^verbatim>\<open>sort\<close>, ...: any change \<open>f\<close> of the contents
  of that list object).  \<open>Mutate k f\<close> changes the \<open>k\<close>-th list handed out so far.
\<close>

datatype caller_op = ReadPrms | Mutate nat "json list \<Rightarrow> json list"

fun caller_step :: "LinkyClient \<Rightarrow> caller_op \<Rightarrow> store \<times> ref list \<Rightarrow> store \<times> ref list" where
  "caller_step c ReadPrms (st, got) = (let (r, st') = prms c st in (st', got @ [r]))"
| "caller_step c (Mutate k f) (st, got) =
     (if k < length got then (st[got ! k := f (st ! (got ! k))], got) else (st, got))"

fun caller_run :: "LinkyClient \<Rightarrow> caller_op list \<Rightarrow> store \<times> ref list \<Rightarrow> store \<times> ref list" where
  "caller_run c [] s = s"
| "caller_run c (x # xs) s = caller_run c xs (caller_step c x s)"

section \<open>A reference instance of the library functions\<close>

text \<open>
  To run the model on concrete inputs the library parameters are instantiated with
  parsers for the formats that occur in the test fixtures of the repository: decimal
  integers with an optional sign, calendar dates \<^verbatim>\<open>YYYY-MM-DD\<close> and date-times
  \<^verbatim>\<open>YYYY-MM-DDTHH:MM:SS\<close>.  On these formats they return what CPython returns.
  Tokens are decoded through a table from token to claims; a token that is not
  in the table is undecodable.  Only concrete examples use this instance; the
  general theorems hold for every library.
\<close>

definition digit_of :: "char \<Rightarrow> nat option" where
  "digit_of c =
     (let n = (of_char c :: nat) in if 48 \<le> n \<and> n \<le> 57 then Some (n - 48) else None)"

fun digits_from :: "nat \<Rightarrow> string \<Rightarrow> nat option" where
  "digits_from acc [] = Some acc"
| "digits_from acc (c # cs) =
     (case digit_of c of None \<Rightarrow> None | Some d \<Rightarrow> digits_from (10 * acc + d) cs)"

definition nat_of_digits :: "string \<Rightarrow> nat option" where
  "nat_of_digits s = (if s = [] then None else digits_from 0 s)"

definition decimal_int :: "string \<Rightarrow> int option" where
  "decimal_int s =
     (if s \<noteq> [] \<and> hd s = CHR ''-'' then map_option (\<lambda>n. - int n) (nat_of_digits (tl s))
      else if s \<noteq> [] \<and> hd s = CHR ''+'' then map_option int (nat_of_digits (tl s))
      else map_option int (nat_of_digits s))"

definition leap_year :: "nat \<Rightarrow> bool" where
  "leap_year y = (y mod 4 = 0 \<and> (y mod 100 \<noteq> 0 \<or> y mod 400 = 0))"

definition days_in_month :: "nat \<Rightarrow> nat \<Rightarrow> nat" where
  "days_in_month y m =
     (if m = 2 then (if leap_year y then 29 else 28)
      else if m = 4 \<or> m = 6 \<or> m = 9 \<or> m = 11 then 30 else 31)"

definition iso_date :: "string \<Rightarrow> date option" where
  "iso_date s =
     (if length s = 10 \<and> s ! 4 = CHR ''-'' \<and> s ! 7 = CHR ''-'' then
        (case (nat_of_digits (take 4 s), nat_of_digits (take 2 (drop 5 s)),
               nat_of_digits (drop 8 s)) of
           (Some y, Some m, Some d) \<Rightarrow>
             if 1 \<le> y \<and> 1 \<le> m \<and> m \<le> 12 \<and> 1 \<le> d \<and> d \<le> days_in_month y m
             then Some \<lparr>year = y, month = m, day = d\<rparr> else None
         | _ \<Rightarrow> None)
      else None)"

definition iso_datetime :: "string \<Rightarrow> datetime option" where
  "iso_datetime s =
     (if length s = 19 \<and> s ! 10 = CHR ''T'' \<and> s ! 13 = CHR '':'' \<and> s ! 16 = CHR '':'' then
        (case (iso_date (take 10 s), nat_of_digits (take 2 (drop 11 s)),
               nat_of_digits (take 2 (drop 14 s)), nat_of_digits (drop 17 s)) of
           (Some d, Some h, Some mi, Some se) \<Rightarrow>
             if h < 24 \<and> mi < 60 \<and> se < 60
             then Some \<lparr>year = year d, month = month d, day = day d, hour = h, minute = mi,
                        second = se, microsecond = 0, utcoffset = None\<rparr>
             else None
         | _ \<Rightarrow> None)
      else None)"

definition table_decode :: "(string \<times> pydict) list \<Rightarrow> string \<Rightarrow> string + pydict" where
  "table_decode tbl token =
     (case map_of tbl token of None \<Rightarrow> Inl ''Not enough segments'' | Some payload \<Rightarrow> Inr payload)"

definition reference_lib :: "(string \<times> pydict) list \<Rightarrow> pylib" where
  "reference_lib tbl =
     \<lparr>jwt_decode = table_decode tbl, int_of_str = decimal_int,
      date_fromisoformat = iso_date, datetime_fromisoformat = iso_datetime\<rparr>"

text \<open>
  The tokens of \<^verbatim>\<open>tests/conftest.py\<close> and \<^verbatim>\<open>tests/test_client.py\<close>, named after their
  fixtures, and three further tokens: one whose \<^verbatim>\<open>sub\<close> is the empty string, one whose
  \<^verbatim>\<open>sub\<close> is the empty list and one whose \<^verbatim>\<open>sub\<close> is a list holding a number.
\<close>

definition fixture_tokens :: "(string \<times> pydict) list" where
  "fixture_tokens =
     [(''single_prm_token'', [(''sub'', JStr ''12345678901234'')]),
      (''multi_prm_token'', [(''sub'', JList [JStr ''12345678901234'', JStr ''98765432109876''])]),
      (''token_without_sub'', [(''foo'', JStr ''bar'')]),
      (''empty_string_sub_token'', [(''sub'', JStr [])]),
      (''empty_list_sub_token'', [(''sub'', JList [])]),
      (''number_list_sub_token'', [(''sub'', JList [JInt 1])])]"

definition test_lib :: pylib where
  "test_lib = reference_lib fixture_tokens"


section \<open>Notions used in the statements\<close>




text \<open>
  A caller that reads \<^verbatim>\<open>prms\<close>, appends to the list it got, reads \<^verbatim>\<open>prms\<close> again and
  clears both lists.
\<close>

definition example_ops :: "caller_op list" where
  "example_ops = [ReadPrms, Mutate 0 (\<lambda>xs. xs @ [JStr ''00000000000000'']), ReadPrms,
                  Mutate 1 (\<lambda>xs. []), Mutate 0 (\<lambda>xs. [])]"
















definition response_without_readings :: pydict where
  "response_without_readings =
     [(''usage_point_id'', JStr ''12345678901234''),
      (''start'', JStr ''2024-01-01''),
      (''end'', JStr ''2024-01-02''),
      (''quality'', JStr ''BRUT''),
      (''reading_type'',
         JObj [(''unit'', JStr ''Wh''), (''measurement_kind'', JStr ''energy''),
               (''aggregate'', JStr ''sum'')])]"


section \<open>Basic facts\<close>


lemma bindE_eq_Inl: "(bindE m f = Inl e) = (m = Inl e \<or> (\<exists>x. m = Inr x \<and> f x = Inl e))"
  by (cases m) (simp_all add: bindE_def)

lemma bindE_Inr: "bindE (Inr x) f = f x"
  by (simp add: bindE_def)

lemma bindE_Inl: "bindE (Inl e) f = Inl e"
  by (simp add: bindE_def)

lemma dict_get_Some: "map_of d k = Some v \<Longrightarrow> dict_get d k = v"
  by (simp add: dict_get_def)


lemmas test_lib_simps = test_lib_def reference_lib_def table_decode_def fixture_tokens_def

lemmas parser_simps = iso_datetime_def iso_date_def nat_of_digits_def digit_of_def
  days_in_month_def leap_year_def decimal_int_def

lemmas mapper_simps = MeteringData_from_dict_def IntervalReading_from_dict_def
  MeasurementKind_of_def Aggregate_of_def replace_space_def dict_get_def bindE_Inr bindE_Inl

section \<open>Token scope resolution\<close>

subsection \<open>The branches of \<^verbatim>\<open>_extract_prms\<close>\<close>


lemma extract_prms_falsy:
  "jwt_decode L token = Inr payload \<Longrightarrow> \<not> truthy (dict_get payload ''sub'') \<Longrightarrow>
   extract_prms L token = Inl (InvalidTokenError ''Token has no 'sub' claim'')"
  by (simp add: extract_prms_def)

lemma extract_prms_str:
  "jwt_decode L token = Inr payload \<Longrightarrow> dict_get payload ''sub'' = JStr s \<Longrightarrow> s \<noteq> [] \<Longrightarrow>
   extract_prms L token = Inr [JStr s]"
  by (simp add: extract_prms_def bindE_def)

lemma extract_prms_list:
  "jwt_decode L token = Inr payload \<Longrightarrow> dict_get payload ''sub'' = JList xs \<Longrightarrow> xs \<noteq> [] \<Longrightarrow>
   extract_prms L token = Inr xs"
  by (simp add: extract_prms_def bindE_def)


lemma extract_prms_single: "extract_prms test_lib ''single_prm_token'' = Inr [JStr ''12345678901234'']"
  by (simp add: test_lib_simps extract_prms_def dict_get_def bindE_def)

lemma extract_prms_multi:
  "extract_prms test_lib ''multi_prm_token'' =
     Inr [JStr ''12345678901234'', JStr ''98765432109876'']"
  by (simp add: test_lib_simps extract_prms_def dict_get_def bindE_def)

subsection \<open>The branches of \<^verbatim>\<open>LinkyClient.__init__\<close>\<close>

lemma init_default:
  "extract_prms L token = Inr scope \<Longrightarrow> scope \<noteq> [] \<Longrightarrow>
   LinkyClient_init L token None st =
     Inr (\<lparr>priv_token = token, priv_prms = length st, priv_prm = hd scope\<rparr>, st @ [scope])"
  by (cases scope) (simp_all add: LinkyClient_init_def bindE_def new_list_def)

lemma init_explicit:
  "extract_prms L token = Inr scope \<Longrightarrow>
   LinkyClient_init L token (Some p) st =
     (if JStr p \<in> set scope
      then Inr (\<lparr>priv_token = token, priv_prms = length st, priv_prm = JStr p\<rparr>, st @ [scope])
      else Inl (PRMAccessError p))"
  by (simp add: LinkyClient_init_def bindE_def new_list_def)

lemma init_invalid:
  "extract_prms L token = Inl e \<Longrightarrow> LinkyClient_init L token p st = Inl e"
  by (simp add: LinkyClient_init_def bindE_def)

subsection \<open>Scope and active identifier\<close>

text \<open>
  Claim C1, as the code has it.  When the \<^verbatim>\<open>sub\<close> claim of a decodable token is a
  non-empty string, the resolved scope is the one-element list holding that string;
  when it is a non-empty list, the resolved scope is that very list (same elements,
  same order, duplicates kept); in both cases a client built without an explicit
  \<^verbatim>\<open>prm\<close> holds that scope and its active identifier is the first element.
\<close>

theorem C1_scope_of_subject:
  assumes "jwt_decode L token = Inr payload"
  shows "(\<forall>s. map_of payload ''sub'' = Some (JStr s) \<and> s \<noteq> [] \<longrightarrow>
            extract_prms L token = Inr [JStr s]
            \<and> (\<exists>c st'. LinkyClient_init L token None st = Inr (c, st')
                  \<and> st' ! priv_prms c = [JStr s] \<and> prm c = JStr s))
       \<and> (\<forall>xs. map_of payload ''sub'' = Some (JList xs) \<and> xs \<noteq> [] \<longrightarrow>
            extract_prms L token = Inr xs
            \<and> (\<exists>c st'. LinkyClient_init L token None st = Inr (c, st')
                  \<and> st' ! priv_prms c = xs \<and> prm c = hd xs))"
proof (intro conjI allI impI)
  fix s assume a: "map_of payload ''sub'' = Some (JStr s) \<and> s \<noteq> []"
  with assms show e: "extract_prms L token = Inr [JStr s]"
    by (simp add: extract_prms_str dict_get_Some)
  show "\<exists>c st'. LinkyClient_init L token None st = Inr (c, st')
          \<and> st' ! priv_prms c = [JStr s] \<and> prm c = JStr s"
    using init_default [OF e] by (simp add: prm_def)
next
  fix xs assume a: "map_of payload ''sub'' = Some (JList xs) \<and> xs \<noteq> []"
  with assms show e: "extract_prms L token = Inr xs"
    by (simp add: extract_prms_list dict_get_Some)
  show "\<exists>c st'. LinkyClient_init L token None st = Inr (c, st')
          \<and> st' ! priv_prms c = xs \<and> prm c = hd xs"
    using init_default [OF e] a by (simp add: prm_def)
qed

text \<open>The two tokens of \<^verbatim>\<open>conftest.py\<close>, as in \<^verbatim>\<open>test_single_prm_token\<close> and
  \<^verbatim>\<open>test_multi_prm_token\<close>.\<close>

theorem C1_scope_of_subject_witness:
  "extract_prms test_lib ''single_prm_token'' = Inr [JStr ''12345678901234'']
   \<and> (\<exists>c st'. LinkyClient_init test_lib ''single_prm_token'' None [] = Inr (c, st')
         \<and> st' ! priv_prms c = [JStr ''12345678901234''] \<and> prm c = JStr ''12345678901234'')
   \<and> extract_prms test_lib ''multi_prm_token'' =
        Inr [JStr ''12345678901234'', JStr ''98765432109876'']
   \<and> (\<exists>c st'. LinkyClient_init test_lib ''multi_prm_token'' None [] = Inr (c, st')
         \<and> st' ! priv_prms c = [JStr ''12345678901234'', JStr ''98765432109876'']
         \<and> prm c = JStr ''12345678901234'')"
proof -
  have d1: "jwt_decode test_lib ''single_prm_token'' = Inr [(''sub'', JStr ''12345678901234'')]"
    by (simp add: test_lib_simps)
  have d2: "jwt_decode test_lib ''multi_prm_token'' =
              Inr [(''sub'', JList [JStr ''12345678901234'', JStr ''98765432109876''])]"
    by (simp add: test_lib_simps)
  show ?thesis
    using C1_scope_of_subject [OF d1, of "[]"] C1_scope_of_subject [OF d2, of "[]"]
    by simp
qed

text \<open>
  Without the words ``non-empty'' the statement fails: a token whose \<^verbatim>\<open>sub\<close> is the
  string \<^verbatim>\<open>""\<close>, or the list \<^verbatim>\<open>[]\<close>, decodes, and \<^verbatim>\<open>if not sub\<close> rejects it, so that no
  scope is resolved and no client is built.
\<close>

theorem C1_counterexample:
  "jwt_decode test_lib ''empty_string_sub_token'' = Inr [(''sub'', JStr [])]
   \<and> extract_prms test_lib ''empty_string_sub_token'' \<noteq> Inr [JStr []]
   \<and> LinkyClient_init test_lib ''empty_string_sub_token'' None [] =
        Inl (InvalidTokenError ''Token has no 'sub' claim'')
   \<and> jwt_decode test_lib ''empty_list_sub_token'' = Inr [(''sub'', JList [])]
   \<and> extract_prms test_lib ''empty_list_sub_token'' \<noteq> Inr []
   \<and> LinkyClient_init test_lib ''empty_list_sub_token'' None [] =
        Inl (InvalidTokenError ''Token has no 'sub' claim'')"
  by (simp add: test_lib_simps extract_prms_def dict_get_def LinkyClient_init_def bindE_def)

subsection \<open>An explicitly requested identifier\<close>

text \<open>
  Claim C5.  Let the scope of a token be resolved.  A client requested for an
  identifier \<open>p\<close> that is not in the scope is not built: the constructor raises
  \<^verbatim>\<open>PRMAccessError\<close> carrying \<open>p\<close>.  When \<open>p\<close> is in the scope the constructor
  succeeds, \<open>p\<close> is the active identifier and the client holds the whole scope.
\<close>

theorem C5_explicit_prm:
  assumes "extract_prms L token = Inr scope"
  shows "(JStr p \<notin> set scope \<longrightarrow> LinkyClient_init L token (Some p) st = Inl (PRMAccessError p))
       \<and> (JStr p \<in> set scope \<longrightarrow>
            (\<exists>c st'. LinkyClient_init L token (Some p) st = Inr (c, st')
               \<and> prm c = JStr p \<and> st' ! priv_prms c = scope))"
  using init_explicit [OF assms, of p st] by (simp add: prm_def)

text \<open>\<^verbatim>\<open>test_invalid_prm_selection\<close> and \<^verbatim>\<open>test_specific_prm_selection\<close>.\<close>

theorem C5_explicit_prm_witness:
  "LinkyClient_init test_lib ''single_prm_token'' (Some ''99999999999999'') [] =
     Inl (PRMAccessError ''99999999999999'')
   \<and> (\<exists>c st'. LinkyClient_init test_lib ''multi_prm_token'' (Some ''98765432109876'') [] =
          Inr (c, st')
        \<and> prm c = JStr ''98765432109876''
        \<and> st' ! priv_prms c = [JStr ''12345678901234'', JStr ''98765432109876''])"
  using C5_explicit_prm [OF extract_prms_single, of "''99999999999999''" "[]"]
    C5_explicit_prm [OF extract_prms_multi, of "''98765432109876''" "[]"]
  by simp

subsection \<open>When resolution fails\<close>




subsection \<open>The empty string as subject\<close>

text \<open>
  Claim C9.  A decodable token whose \<^verbatim>\<open>sub\<close> claim is the empty string is rejected
  with the \<^verbatim>\<open>InvalidTokenError\<close> of a token that has no \<^verbatim>\<open>sub\<close> claim at all; the
  one-element scope holding the empty string is not produced.
\<close>

theorem C9_empty_string_sub:
  assumes "jwt_decode L token = Inr payload"
    and "map_of payload ''sub'' = None \<or> map_of payload ''sub'' = Some (JStr [])"
  shows "extract_prms L token = Inl (InvalidTokenError ''Token has no 'sub' claim'')
         \<and> extract_prms L token \<noteq> Inr [JStr []]"
proof -
  from assms(2) have "\<not> truthy (dict_get payload ''sub'')"
    by (auto simp: dict_get_def)
  with assms(1) show ?thesis
    by (simp add: extract_prms_falsy)
qed

theorem C9_empty_string_sub_witness:
  "jwt_decode test_lib ''empty_string_sub_token'' = Inr [(''sub'', JStr [])]
   \<and> extract_prms test_lib ''empty_string_sub_token'' =
       Inl (InvalidTokenError ''Token has no 'sub' claim'')
   \<and> extract_prms test_lib ''token_without_sub'' =
       Inl (InvalidTokenError ''Token has no 'sub' claim'')"
  using C9_empty_string_sub [of test_lib "''empty_string_sub_token''" "[(''sub'', JStr [])]"]
    C9_empty_string_sub [of test_lib "''token_without_sub''" "[(''foo'', JStr ''bar'')]"]
  by (simp add: test_lib_simps)

subsection \<open>The \<^verbatim>\<open>prms\<close> property hands out a copy\<close>

lemma caller_step_inv:
  assumes "priv_prms c < length st" and "\<forall>r\<in>set got. r \<noteq> priv_prms c"
    and "caller_step c x (st, got) = (st', got')"
  shows "st' ! priv_prms c = st ! priv_prms c \<and> priv_prms c < length st'
         \<and> (\<forall>r\<in>set got'. r \<noteq> priv_prms c)"
proof (cases x)
  case ReadPrms
  with assms show ?thesis
    by (auto simp: prms_def new_list_def nth_append)
next
  case (Mutate k f)
  with assms show ?thesis
    by (auto split: if_splits)
qed

lemma caller_run_inv:
  "priv_prms c < length st \<Longrightarrow> \<forall>r\<in>set got. r \<noteq> priv_prms c \<Longrightarrow>
   caller_run c ops (st, got) = (st', got') \<Longrightarrow>
   st' ! priv_prms c = st ! priv_prms c \<and> priv_prms c < length st'
   \<and> (\<forall>r\<in>set got'. r \<noteq> priv_prms c)"
proof (induction ops arbitrary: st got)
  case Nil
  then show ?case by simp
next
  case (Cons x ops)
  obtain st1 got1 where s: "caller_step c x (st, got) = (st1, got1)"
    by (cases "caller_step c x (st, got)")
  from caller_step_inv [OF Cons.prems(1) Cons.prems(2) s]
  have i: "st1 ! priv_prms c = st ! priv_prms c" "priv_prms c < length st1"
    "\<forall>r\<in>set got1. r \<noteq> priv_prms c"
    by simp_all
  from Cons.prems(3) s have "caller_run c ops (st1, got1) = (st', got')"
    by simp
  from Cons.IH [OF i(2) i(3) this] i(1) show ?case
    by simp
qed

lemma init_Inr:
  assumes "LinkyClient_init L token p st0 = Inr (c, st)"
  shows "\<exists>scope. extract_prms L token = Inr scope \<and> st = st0 @ [scope]
           \<and> priv_prms c = length st0"
proof (cases "extract_prms L token")
  case (Inl e)
  with assms show ?thesis by (simp add: init_invalid)
next
  case (Inr scope)
  with assms show ?thesis
    by (auto simp: LinkyClient_init_def bindE_def new_list_def
        split: option.splits if_splits list.splits)
qed

text \<open>
  Claim C8.  Take a client as its constructor leaves it, and let a caller read the
  \<^verbatim>\<open>prms\<close> property and mutate the lists it was handed, in any order and any number of
  times.  Afterwards the list held in \<^verbatim>\<open>_prms\<close> still is the scope resolved from the
  token, none of the lists handed out is the \<^verbatim>\<open>_prms\<close> list itself, and one more
  read of \<^verbatim>\<open>prms\<close> returns a fresh list with the contents of the scope and leaves
  \<^verbatim>\<open>_prms\<close> as it was.  The active identifier is an attribute of the client, which no
  operation on a list reaches: \<open>prm c\<close> is the same before and after.  The copy is
  shallow: the statement is about changes of the returned list, not of objects it
  holds.
\<close>

theorem C8_defensive_copy:
  assumes "LinkyClient_init L token p st0 = Inr (c, st)"
    and "caller_run c ops (st, []) = (st', got)"
  shows "st' ! priv_prms c = st ! priv_prms c
       \<and> extract_prms L token = Inr (st' ! priv_prms c)
       \<and> priv_prms c \<notin> set got
       \<and> fst (prms c st') \<noteq> priv_prms c
       \<and> snd (prms c st') ! fst (prms c st') = st ! priv_prms c
       \<and> snd (prms c st') ! priv_prms c = st ! priv_prms c"
proof -
  from init_Inr [OF assms(1)] obtain scope where
    s: "extract_prms L token = Inr scope" "st = st0 @ [scope]" "priv_prms c = length st0"
    by blast
  then have l: "priv_prms c < length st" and sc: "st ! priv_prms c = scope"
    by simp_all
  from caller_run_inv [OF l _ assms(2)]
  have i: "st' ! priv_prms c = st ! priv_prms c" "priv_prms c < length st'"
    "\<forall>r\<in>set got. r \<noteq> priv_prms c"
    by simp_all
  with s(1) sc show ?thesis
    by (auto simp: prms_def new_list_def nth_append)
qed

theorem C8_defensive_copy_witness:
  "LinkyClient_init test_lib ''multi_prm_token'' None [] =
     Inr (\<lparr>priv_token = ''multi_prm_token'', priv_prms = 0, priv_prm = JStr ''12345678901234''\<rparr>,
          [[JStr ''12345678901234'', JStr ''98765432109876'']])
   \<and> caller_run \<lparr>priv_token = ''multi_prm_token'', priv_prms = 0,
                  priv_prm = JStr ''12345678901234''\<rparr>
        example_ops ([[JStr ''12345678901234'', JStr ''98765432109876'']], []) =
        ([[JStr ''12345678901234'', JStr ''98765432109876''], [], []], [1, 2])
   \<and> snd (prms \<lparr>priv_token = ''multi_prm_token'', priv_prms = 0,
                  priv_prm = JStr ''12345678901234''\<rparr>
             [[JStr ''12345678901234'', JStr ''98765432109876''], [], []])
        ! fst (prms \<lparr>priv_token = ''multi_prm_token'', priv_prms = 0,
                      priv_prm = JStr ''12345678901234''\<rparr>
                 [[JStr ''12345678901234'', JStr ''98765432109876''], [], []])
      = [JStr ''12345678901234'', JStr ''98765432109876'']"
proof -
  let ?c = "\<lparr>priv_token = ''multi_prm_token'', priv_prms = 0,
             priv_prm = JStr ''12345678901234''\<rparr>"
  let ?st = "[[JStr ''12345678901234'', JStr ''98765432109876'']]"
  have i: "LinkyClient_init test_lib ''multi_prm_token'' None [] = Inr (?c, ?st)"
    using init_default [OF extract_prms_multi, of "[]"] by simp
  have r: "caller_run ?c example_ops (?st, []) = ([?st ! 0, [], []], [1, 2])"
    by (simp add: example_ops_def prms_def new_list_def)
  show ?thesis
    using i r C8_defensive_copy [OF i r] by simp
qed

section \<open>Response mapping\<close>

subsection \<open>Derived aggregates\<close>





subsection \<open>The date of a reading\<close>

lemma from_dict_str_date:
  assumes "map_of kvs ''date'' = Some (JStr s)"
  shows "IntervalReading_from_dict L (JObj kvs) =
     bindE (if CHR ''T'' \<in> set s \<or> CHR '' '' \<in> set s
            then (case datetime_fromisoformat L (replace_space s) of
                    None \<Rightarrow> Inl ValueError | Some t \<Rightarrow> Inr (DateTime t))
            else (case date_fromisoformat L s of
                    None \<Rightarrow> Inl ValueError | Some d \<Rightarrow> Inr (Date d))) (\<lambda>parsed_date.
     bindE (subscript (JObj kvs) ''value'') (\<lambda>v.
     bindE (py_int L v) (\<lambda>n.
     Inr \<lparr>value_f = n, date_f = parsed_date,
          interval_length = dict_get kvs ''interval_length'',
          measure_type = dict_get kvs ''measure_type''\<rparr>)))"
  using assms
  by (simp add: IntervalReading_from_dict_def bindE_def split: option.splits)

lemma replace_space_sep:
  "CHR '' '' \<notin> set d \<Longrightarrow> CHR '' '' \<notin> set t \<Longrightarrow>
   replace_space (d @ CHR '' '' # t) = d @ CHR ''T'' # t
   \<and> replace_space (d @ CHR ''T'' # t) = d @ CHR ''T'' # t"
proof -
  have i: "CHR '' '' \<notin> set xs \<Longrightarrow> replace_space xs = xs" for xs
    by (induction xs) (auto simp: replace_space_def)
  assume "CHR '' '' \<notin> set d" "CHR '' '' \<notin> set t"
  then have "replace_space d = d" "replace_space t = t"
    by (simp_all add: i)
  then show ?thesis
    by (simp add: replace_space_def)
qed

text \<open>
  Claim C3.  Take a reading entry whose \<^verbatim>\<open>date\<close> is a string and whose \<^verbatim>\<open>value\<close>
  converts to an integer.  If the string holds neither a \<^verbatim>\<open>T\<close> nor a space, the
  entry maps to a reading whose date is the date-only value that
  \<^verbatim>\<open>date.fromisoformat\<close> gives for it; otherwise it maps to a reading whose date is
  the date-time that \<^verbatim>\<open>datetime.fromisoformat\<close> gives for the string with its spaces
  replaced by \<^verbatim>\<open>T\<close>; in both cases \<^verbatim>\<open>ValueError\<close> is raised when the parser rejects
  the string.  A string with one space between its two parts maps as the same
  string with \<^verbatim>\<open>T\<close> in place of the space does.  In particular \<^verbatim>\<open>"2024-01-15"\<close> gives
  the date 2024-01-15, and \<^verbatim>\<open>"2024-01-15T14:30:00"\<close> and \<^verbatim>\<open>"2024-01-15 14:30:00"\<close> both
  give the date-time 2024-01-15 14:30:00, with hour 14 and minute 30.
\<close>

theorem C3_date_or_datetime:
  "(map_of kvs ''date'' = Some (JStr s) \<and> map_of kvs ''value'' = Some v \<and> py_int L v = Inr n \<longrightarrow>
      IntervalReading_from_dict L (JObj kvs) =
        (if CHR ''T'' \<in> set s \<or> CHR '' '' \<in> set s
         then (case datetime_fromisoformat L (replace_space s) of
                 None \<Rightarrow> Inl ValueError
               | Some t \<Rightarrow> Inr \<lparr>value_f = n, date_f = DateTime t,
                               interval_length = dict_get kvs ''interval_length'',
                               measure_type = dict_get kvs ''measure_type''\<rparr>)
         else (case date_fromisoformat L s of
                 None \<Rightarrow> Inl ValueError
               | Some d \<Rightarrow> Inr \<lparr>value_f = n, date_f = Date d,
                               interval_length = dict_get kvs ''interval_length'',
                               measure_type = dict_get kvs ''measure_type''\<rparr>)))
   \<and> (CHR '' '' \<notin> set dpart \<and> CHR '' '' \<notin> set tpart \<longrightarrow>
        IntervalReading_from_dict L (JObj ((''date'', JStr (dpart @ CHR '' '' # tpart)) # rest)) =
        IntervalReading_from_dict L (JObj ((''date'', JStr (dpart @ CHR ''T'' # tpart)) # rest)))
   \<and> map_sum id date_f
        (IntervalReading_from_dict test_lib
           (JObj [(''value'', JStr ''1234''), (''date'', JStr ''2024-01-15'')])) =
      Inr (Date \<lparr>year = 2024, month = 1, day = 15\<rparr>)
   \<and> map_sum id date_f
        (IntervalReading_from_dict test_lib
           (JObj [(''value'', JStr ''456''), (''date'', JStr ''2024-01-15T14:30:00'')])) =
      Inr (DateTime \<lparr>year = 2024, month = 1, day = 15, hour = 14, minute = 30, second = 0,
                     microsecond = 0, utcoffset = None\<rparr>)
   \<and> map_sum id date_f
        (IntervalReading_from_dict test_lib
           (JObj [(''value'', JStr ''456''), (''date'', JStr ''2024-01-15 14:30:00'')])) =
      Inr (DateTime \<lparr>year = 2024, month = 1, day = 15, hour = 14, minute = 30, second = 0,
                     microsecond = 0, utcoffset = None\<rparr>)"
proof (intro conjI impI)
  assume a: "map_of kvs ''date'' = Some (JStr s) \<and> map_of kvs ''value'' = Some v
             \<and> py_int L v = Inr n"
  then have "map_of kvs ''date'' = Some (JStr s)" by simp
  from from_dict_str_date [OF this, of L] a
  show "IntervalReading_from_dict L (JObj kvs) =
        (if CHR ''T'' \<in> set s \<or> CHR '' '' \<in> set s
         then (case datetime_fromisoformat L (replace_space s) of
                 None \<Rightarrow> Inl ValueError
               | Some t \<Rightarrow> Inr \<lparr>value_f = n, date_f = DateTime t,
                               interval_length = dict_get kvs ''interval_length'',
                               measure_type = dict_get kvs ''measure_type''\<rparr>)
         else (case date_fromisoformat L s of
                 None \<Rightarrow> Inl ValueError
               | Some d \<Rightarrow> Inr \<lparr>value_f = n, date_f = Date d,
                               interval_length = dict_get kvs ''interval_length'',
                               measure_type = dict_get kvs ''measure_type''\<rparr>))"
    by (simp add: bindE_def split: option.splits)
next
  assume a: "CHR '' '' \<notin> set dpart \<and> CHR '' '' \<notin> set tpart"
  let ?k1 = "(''date'', JStr (dpart @ CHR '' '' # tpart)) # rest"
  let ?k2 = "(''date'', JStr (dpart @ CHR ''T'' # tpart)) # rest"
  have m1: "map_of ?k1 ''date'' = Some (JStr (dpart @ CHR '' '' # tpart))" by simp
  have m2: "map_of ?k2 ''date'' = Some (JStr (dpart @ CHR ''T'' # tpart))" by simp
  from a have r: "replace_space (dpart @ CHR '' '' # tpart) = dpart @ CHR ''T'' # tpart"
    "replace_space (dpart @ CHR ''T'' # tpart) = dpart @ CHR ''T'' # tpart"
    by (simp_all add: replace_space_sep)
  show "IntervalReading_from_dict L (JObj ?k1) = IntervalReading_from_dict L (JObj ?k2)"
    unfolding from_dict_str_date [OF m1] from_dict_str_date [OF m2]
    by (simp add: r dict_get_def)
qed (simp_all add: test_lib_def reference_lib_def mapper_simps parser_simps)

text \<open>The strings of \<^verbatim>\<open>test_from_dict_date_only\<close> and \<^verbatim>\<open>test_from_dict_datetime\<close>.\<close>

theorem C3_date_or_datetime_witness:
  "IntervalReading_from_dict test_lib
     (JObj [(''date'', JStr ''2024-01-15 14:30:00''), (''value'', JStr ''456'')]) =
     Inr \<lparr>value_f = 456,
          date_f = DateTime \<lparr>year = 2024, month = 1, day = 15, hour = 14, minute = 30,
                              second = 0, microsecond = 0, utcoffset = None\<rparr>,
          interval_length = JNull, measure_type = JNull\<rparr>
   \<and> IntervalReading_from_dict test_lib
       (JObj [(''date'', JStr ''2024-01-15''), (''value'', JStr ''456'')]) =
     Inr \<lparr>value_f = 456, date_f = Date \<lparr>year = 2024, month = 1, day = 15\<rparr>,
          interval_length = JNull, measure_type = JNull\<rparr>
   \<and> IntervalReading_from_dict test_lib
       (JObj [(''date'', JStr ''2024-01-15 14:30:00''), (''value'', JStr ''456'')]) =
     IntervalReading_from_dict test_lib
       (JObj [(''date'', JStr ''2024-01-15T14:30:00''), (''value'', JStr ''456'')])"
  using C3_date_or_datetime [of "[(''date'', JStr ''2024-01-15 14:30:00''), (''value'', JStr ''456'')]"
      "''2024-01-15 14:30:00''" "JStr ''456''" test_lib 456 "''2024-01-15''" "''14:30:00''"
      "[(''value'', JStr ''456'')]"]
    C3_date_or_datetime [of "[(''date'', JStr ''2024-01-15''), (''value'', JStr ''456'')]"
      "''2024-01-15''" "JStr ''456''" test_lib 456 "[]" "[]" "[]"]
  by (simp add: test_lib_def reference_lib_def mapper_simps parser_simps)

subsection \<open>What a successful mapping has read\<close>









subsection \<open>When mapping fails\<close>











lemma null_readings_TypeError:
  "MeteringData_from_dict test_lib
     (response_without_readings @ [(''interval_reading'', JNull)]) = Inl TypeError"
  by (simp add: response_without_readings_def test_lib_def reference_lib_def mapper_simps
      parser_simps)




end
